theory Spec2Isabelle
  imports Complex_Main
begin

unbundle bit_operations_syntax

section \<open>Python values and errors\<close>

text \<open>
  The module \<^verbatim>\<open>myhdl/_fixbv.py\<close> computes with Python's unbounded integers, modelled
  as \<^typ>\<open>int\<close>. Every exception the code can raise is a value of \<open>error\<close>; the one
  class \<^verbatim>\<open>ValueError\<close> carries which message was raised, since the code raises it
  both for a value out of its bounds and for malformed indices.
\<close>

datatype value_error =
    OutOfRange            \<comment> \<open>\<^verbatim>\<open>fixbv: Value ... out of range\<close> (\<^verbatim>\<open>_handleBounds\<close>)\<close>
  | NegativeShiftCount    \<comment> \<open>Python's \<^verbatim>\<open>negative shift count\<close> of \<^verbatim>\<open><<\<close> and \<^verbatim>\<open>>>\<close>\<close>
  | RequiresJNonNegative  \<comment> \<open>\<^verbatim>\<open>fixbv[i:j] requires j >= ...\<close>\<close>
  | RequiresIAboveJ       \<comment> \<open>\<^verbatim>\<open>fixbv[i:j] requires i > j\<close>\<close>
  | AbsTooLarge           \<comment> \<open>\<^verbatim>\<open>fixbv[i:j] = v abs(v) too large\<close>\<close>
  | RequiresBit           \<comment> \<open>\<^verbatim>\<open>fixbv[i] = v requires v in (0, 1)\<close>\<close>

datatype error =
    TypeError
  | ValueError value_error
  | AssertionError
  | AttributeError
  | NotImplementedError
  | ZeroDivisionError
  | OverflowError

type_synonym 'a result = "error + 'a"

text \<open>Sequencing of computations that may raise: the first exception ends the run.\<close>

definition bind :: "'a result \<Rightarrow> ('a \<Rightarrow> 'b result) \<Rightarrow> 'b result" where
  "bind m k = (case m of Inl e \<Rightarrow> Inl e | Inr x \<Rightarrow> k x)"

text \<open>
  Python's \<^verbatim>\<open>a << n\<close> and \<^verbatim>\<open>a >> n\<close> on integers: a negative count raises
  \<^verbatim>\<open>ValueError\<close>; the right shift rounds towards minus infinity.
\<close>

definition py_lshift :: "int \<Rightarrow> int \<Rightarrow> int result" where
  "py_lshift a n = (if n < 0 then Inl (ValueError NegativeShiftCount) else Inr (a * 2 ^ nat n))"

definition py_rshift :: "int \<Rightarrow> int \<Rightarrow> int result" where
  "py_rshift a n = (if n < 0 then Inl (ValueError NegativeShiftCount) else Inr (a div 2 ^ nat n))"

subsection \<open>Conversion of an integer to a float\<close>

text \<open>
  Where the code leaves integer arithmetic (\<^verbatim>\<open>math.log\<close>, \<^verbatim>\<open>2**n\<close> with a negative
  \<open>n\<close>), Python first converts the integer to an IEEE double: the nearest value with 53
  significant bits, ties to the even one, and \<^verbatim>\<open>OverflowError\<close> when that value is
  \<open>2 ^ 1024\<close> or beyond. The double nearest to an integer is an integer itself, so
  \<open>round53\<close> returns it as one.
\<close>

fun bit_length :: "nat \<Rightarrow> nat" where
  "bit_length n = (if n = 0 then 0 else Suc (bit_length (n div 2)))"

declare bit_length.simps [simp del]

definition round53 :: "int \<Rightarrow> int" where
  "round53 n =
     (let m = \<bar>n\<bar>; l = bit_length (nat m) in
      if l \<le> 53 then n
      else
        let s = l - 53; q = m div 2 ^ s; r = m mod 2 ^ s; half = 2 ^ (s - 1);
            q' = (if half < r \<or> (r = half \<and> odd q) then q + 1 else q)
        in sgn n * (q' * 2 ^ s))"

definition float_of_int :: "int \<Rightarrow> int result" where
  "float_of_int n = (if 2 ^ 1024 \<le> \<bar>round53 n\<bar> then Inl OverflowError else Inr (round53 n))"

section \<open>Grid alignment\<close>

text \<open>
  \<^verbatim>\<open>alignvalues(a, b)\<close>: both arguments are pairs (stored integer, shift). The two
  assertions of the source (each argument is a tuple of length 2) hold by typing. When the
  first shift is the smaller one the function calls itself with the arguments swapped and
  swaps the results back.
\<close>

function alignvalues :: "int \<times> int \<Rightarrow> int \<times> int \<Rightarrow> (int \<times> int) \<times> (int \<times> int)" where
  "alignvalues (a_val, a_shift) (b_val, b_shift) =
     (if a_shift \<ge> b_shift then
        let diff_shift = a_shift - b_shift;
            a_val' = a_val * 2 ^ nat diff_shift;
            a_shift' = b_shift
        in ((a_val', a_shift'), (b_val, b_shift))
      else
        let (b', a') = alignvalues (b_val, b_shift) (a_val, a_shift)
        in (a', b'))"
  by pat_completeness auto
termination
  by (relation "measure (\<lambda>(a, b). if snd a \<ge> snd b then 0 else 1)") auto

declare alignvalues.simps [simp del]

text \<open>The real-world value of a pair: stored integer times two to the shift.\<close>

definition realvalue :: "int \<times> int \<Rightarrow> real" where
  "realvalue p = of_int (fst p) * 2 powi (snd p)"

section \<open>Bit-width estimator\<close>

text \<open>
  \<^verbatim>\<open>calc_nr_bits(val)\<close> computes \<^verbatim>\<open>int(ceil(log(-val, 2)) + 1)\<close> for a negative and
  \<^verbatim>\<open>int(ceil(log(val + 1, 2)) + 1)\<close> for a positive argument, with \<^verbatim>\<open>log\<close> and
  \<^verbatim>\<open>ceil\<close> of Python's \<^verbatim>\<open>math\<close> module. \<^verbatim>\<open>math.log(x, 2)\<close> converts the integer
  \<open>x\<close> to a double and divides the C library's logarithm of it by that of 2.0, in
  doubles. The C library is not part of the repository, so the result is taken through
  the parameter \<open>flog\<close>: \<open>flog d\<close> is the double that \<^verbatim>\<open>math.log\<close> returns for base 2
  on the double (the integer) \<open>d\<close>. For an integer beyond the doubles' range
  \<^verbatim>\<open>math.log\<close> works from its 53-bit mantissa and its exponent, so there too the result
  depends on \<open>round53 x\<close> only. \<^verbatim>\<open>math.ceil\<close> is exact. The variable \<^verbatim>\<open>a\<close> of the
  source is computed and never read.
\<close>

definition math_log2 :: "(int \<Rightarrow> real) \<Rightarrow> int \<Rightarrow> real" where
  "math_log2 flog x = flog (round53 x)"

definition calc_nr_bits :: "(int \<Rightarrow> real) \<Rightarrow> int \<Rightarrow> int" where
  "calc_nr_bits flog v =
     (if v = 0 then 0
      else if v < 0 then \<lceil>math_log2 flog (- v)\<rceil> + 1
      else \<lceil>math_log2 flog (v + 1)\<rceil> + 1)"

text \<open>
  The bit width as the specification words it, with the exact logarithm of the reals:
  0 for 0, \<open>ceil(log2(-v)) + 1\<close> for a negative and \<open>ceil(log2(v+1)) + 1\<close> for a
  positive \<open>v\<close>.
\<close>

definition bit_width_spec :: "int \<Rightarrow> int" where
  "bit_width_spec v =
     (if v = 0 then 0
      else if v < 0 then \<lceil>log 2 (of_int (- v))\<rceil> + 1
      else \<lceil>log 2 (of_int (v + 1))\<rceil> + 1)"

section \<open>The class fixbv\<close>

text \<open>
  An instance holds the stored integer \<^verbatim>\<open>_val\<close>, the shift \<^verbatim>\<open>_shift\<close> and the optional
  bounds \<^verbatim>\<open>_min\<close> and \<^verbatim>\<open>_max\<close> (\<^verbatim>\<open>None\<close> when absent). The model covers the
  default \<^verbatim>\<open>asfloat=False\<close>, with which every call inside the module constructs its
  instances; the three presentation flags are then all false and are left out.
\<close>

record fixbv =
  f_val :: int
  f_shift :: int
  f_min :: "int option"
  f_max :: "int option"

text \<open>
  What the constructor is given as \<^verbatim>\<open>val\<close>: an integer, a float (rejected whatever its
  value, as \<^verbatim>\<open>asfloat\<close> is false) or another instance.
\<close>

datatype init_arg = IntArg int | FloatArg | FixArg fixbv

text \<open>The right operand of an operator: an integer or an instance.\<close>

datatype operand = IntOp int | FixOp fixbv

definition getsi :: "fixbv \<Rightarrow> int" where
  "getsi self = f_val self"

definition setsi :: "fixbv \<Rightarrow> int \<Rightarrow> fixbv" where
  "setsi self v = self\<lparr>f_val := v\<rparr>"

definition setminsi :: "fixbv \<Rightarrow> int option \<Rightarrow> fixbv" where
  "setminsi self minsi = self\<lparr>f_min := minsi\<rparr>"

definition setmaxsi :: "fixbv \<Rightarrow> int option \<Rightarrow> fixbv" where
  "setmaxsi self maxsi = self\<lparr>f_max := maxsi\<rparr>"

text \<open>\<^verbatim>\<open>_handleBounds\<close>: the range check, run only when both bounds are set.\<close>

definition handleBounds :: "fixbv \<Rightarrow> unit result" where
  "handleBounds self =
     (case f_max self of
        None \<Rightarrow> Inr ()
      | Some hi \<Rightarrow>
          (case f_min self of
             None \<Rightarrow> Inr ()
           | Some lo \<Rightarrow>
               if lo > f_val self \<or> f_val self \<ge> hi then Inl (ValueError OutOfRange)
               else Inr ()))"

text \<open>\<^verbatim>\<open>is_integer\<close>: whether the real-world value is a whole number.\<close>

definition is_integer :: "fixbv \<Rightarrow> bool" where
  "is_integer self =
     (if f_shift self \<ge> 0 then True
      else f_val self mod 2 ^ nat (- f_shift self) = 0)"

text \<open>
  \<^verbatim>\<open>__int__\<close> is \<^verbatim>\<open>int(self.si*2**self.shift)\<close>. With a shift of 0 or more this is
  integer arithmetic. With a negative shift \<^verbatim>\<open>2**self.shift\<close> is a float: Python converts
  the shift to a double to compute it, then the stored integer to a double to multiply
  (either conversion can overflow), and \<^verbatim>\<open>int\<close> truncates the product towards zero.
  The product of a double and a power of two is exact, or below 1 in magnitude where it
  is not.
\<close>

definition truncate_scaled :: "int \<Rightarrow> nat \<Rightarrow> int" where
  "truncate_scaled d k = (if 0 \<le> d then d div 2 ^ k else - ((- d) div 2 ^ k))"

definition fixbv_int :: "fixbv \<Rightarrow> int result" where
  "fixbv_int self =
     (if 0 \<le> f_shift self then Inr (f_val self * 2 ^ nat (f_shift self))
      else
        bind (float_of_int (f_shift self)) (\<lambda>_.
        bind (float_of_int (f_val self)) (\<lambda>d.
          Inr (truncate_scaled d (nat (- f_shift self))))))"

text \<open>\<^verbatim>\<open>int(other)\<close> for an operand.\<close>

definition int_of_operand :: "operand \<Rightarrow> int result" where
  "int_of_operand other = (case other of IntOp n \<Rightarrow> Inr n | FixOp x \<Rightarrow> fixbv_int x)"

text \<open>
  \<^verbatim>\<open>_cast\<close>, with \<^verbatim>\<open>asfloat\<close> false: a float is rejected, anything else goes through
  \<^verbatim>\<open>int\<close>, which for an instance is its \<^verbatim>\<open>__int__\<close>.
\<close>

definition cast :: "init_arg \<Rightarrow> int result" where
  "cast v = (case v of FloatArg \<Rightarrow> Inl TypeError | IntArg n \<Rightarrow> Inr n | FixArg x \<Rightarrow> fixbv_int x)"

text \<open>
  \<^verbatim>\<open>__init__(self, val, shift, min, max)\<close>. The first assertion wants both bounds or
  none. A \<^verbatim>\<open>fixbv\<close> argument is copied field by field, \<^verbatim>\<open>shift\<close>, \<^verbatim>\<open>min\<close> and
  \<^verbatim>\<open>max\<close> unused; otherwise the value is cast, the bounds (integers or \<^verbatim>\<open>None\<close>,
  on which \<^verbatim>\<open>_cast\<close> is the identity) are stored and \<^verbatim>\<open>min < max\<close> is asserted.
  \<^verbatim>\<open>_handleBounds\<close> ends both paths.
\<close>

definition fixbv_init :: "init_arg \<Rightarrow> int \<Rightarrow> int option \<Rightarrow> int option \<Rightarrow> fixbv result" where
  "fixbv_init v sh mn mx =
     (if \<not> ((mn = None \<and> mx = None) \<or> (mn \<noteq> None \<and> mx \<noteq> None)) then Inl AssertionError
      else
        (case v of
           FixArg other \<Rightarrow>
             (let self = \<lparr>f_val = f_val other, f_shift = f_shift other,
                         f_min = f_min other, f_max = f_max other\<rparr>
              in bind (handleBounds self) (\<lambda>_. Inr self))
         | _ \<Rightarrow>
             bind (cast v) (\<lambda>si.
               let self = \<lparr>f_val = si, f_shift = sh, f_min = mn, f_max = mx\<rparr> in
               bind (case mx of
                       None \<Rightarrow> Inr ()
                     | Some hi \<Rightarrow>
                         (case mn of
                            None \<Rightarrow> Inl TypeError
                          | Some lo \<Rightarrow> if lo < hi then Inr () else Inl AssertionError))
                 (\<lambda>_. bind (handleBounds self) (\<lambda>_. Inr self)))))"

text \<open>
  \<^verbatim>\<open>align\<close>: both operands at the smaller shift, as two new instances without bounds.
  An operand that is not an instance is first made one (\<^verbatim>\<open>fixbv(other)\<close>, shift 0).
\<close>

function align :: "fixbv \<Rightarrow> operand \<Rightarrow> (fixbv \<times> fixbv) result" where
  "align self (FixOp other) =
     (let a = (getsi self, f_shift self);
          b = (getsi other, f_shift other);
          (c, d) = alignvalues a b
      in bind (fixbv_init (IntArg (fst c)) (snd c) None None) (\<lambda>x.
         bind (fixbv_init (IntArg (fst d)) (snd d) None None) (\<lambda>y.
           Inr (x, y))))"
| "align self (IntOp n) =
     bind (fixbv_init (IntArg n) 0 None None) (\<lambda>x. align self (FixOp x))"
  by pat_completeness auto
termination
  by (relation "measure (\<lambda>(self, other). case other of IntOp _ \<Rightarrow> 1 | FixOp _ \<Rightarrow> 0)") auto

section \<open>Arithmetic operators\<close>

text \<open>
  Each binary operator works on an instance as right operand and otherwise makes one of
  it (\<^verbatim>\<open>x = fixbv(other)\<close>) and calls itself again. Python's \<^verbatim>\<open>//\<close> and \<^verbatim>\<open>%\<close>
  round towards minus infinity, as \<open>div\<close> and \<open>mod\<close> do, and raise on a zero divisor.
\<close>

definition py_floordiv :: "int \<Rightarrow> int \<Rightarrow> int result" where
  "py_floordiv a b = (if b = 0 then Inl ZeroDivisionError else Inr (a div b))"

definition py_mod :: "int \<Rightarrow> int \<Rightarrow> int result" where
  "py_mod a b = (if b = 0 then Inl ZeroDivisionError else Inr (a mod b))"

text \<open>
  Python's \<^verbatim>\<open>b ** p\<close> on integers: an integer for \<open>p\<close> of 0 or more; for a negative
  \<open>p\<close> both are converted to doubles and the result is a float, or
  \<^verbatim>\<open>ZeroDivisionError\<close> for base 0.
\<close>

definition py_pow :: "int \<Rightarrow> int \<Rightarrow> init_arg result" where
  "py_pow b p =
     (if 0 \<le> p then Inr (IntArg (b ^ nat p))
      else
        bind (float_of_int b) (\<lambda>d.
        bind (float_of_int p) (\<lambda>_.
          if d = 0 then Inl ZeroDivisionError else Inr FloatArg)))"

function fixbv_add :: "fixbv \<Rightarrow> operand \<Rightarrow> fixbv result" where
  "fixbv_add self (FixOp other) =
     bind (align self (FixOp other)) (\<lambda>(c, d).
       fixbv_init (IntArg (getsi c + getsi d)) (f_shift c) None None)"
| "fixbv_add self (IntOp n) =
     bind (fixbv_init (IntArg n) 0 None None) (\<lambda>x. fixbv_add self (FixOp x))"
  by pat_completeness auto
termination
  by (relation "measure (\<lambda>(self, other). case other of IntOp _ \<Rightarrow> 1 | FixOp _ \<Rightarrow> 0)") auto

function fixbv_sub :: "fixbv \<Rightarrow> operand \<Rightarrow> fixbv result" where
  "fixbv_sub self (FixOp other) =
     bind (align self (FixOp other)) (\<lambda>(c, d).
       fixbv_init (IntArg (getsi c - getsi d)) (f_shift c) None None)"
| "fixbv_sub self (IntOp n) =
     bind (fixbv_init (IntArg n) 0 None None) (\<lambda>x. fixbv_sub self (FixOp x))"
  by pat_completeness auto
termination
  by (relation "measure (\<lambda>(self, other). case other of IntOp _ \<Rightarrow> 1 | FixOp _ \<Rightarrow> 0)") auto

function fixbv_mul :: "fixbv \<Rightarrow> operand \<Rightarrow> fixbv result" where
  "fixbv_mul self (FixOp other) =
     fixbv_init (IntArg (getsi self * getsi other)) (f_shift self + f_shift other) None None"
| "fixbv_mul self (IntOp n) =
     bind (fixbv_init (IntArg n) 0 None None) (\<lambda>x. fixbv_mul self (FixOp x))"
  by pat_completeness auto
termination
  by (relation "measure (\<lambda>(self, other). case other of IntOp _ \<Rightarrow> 1 | FixOp _ \<Rightarrow> 0)") auto

text \<open>
  \<^verbatim>\<open>__truediv__\<close> raises whatever it is given. The result is the outcome together with
  \<^verbatim>\<open>self\<close> as the call leaves it.
\<close>

definition fixbv_truediv :: "fixbv \<Rightarrow> operand \<Rightarrow> fixbv result \<times> fixbv" where
  "fixbv_truediv self other = (Inl NotImplementedError, self)"

function fixbv_floordiv :: "fixbv \<Rightarrow> operand \<Rightarrow> fixbv result" where
  "fixbv_floordiv self (FixOp other) =
     bind (align self (FixOp other)) (\<lambda>(c, d).
       bind (py_floordiv (getsi c) (getsi d)) (\<lambda>q.
         fixbv_init (IntArg q) 0 None None))"
| "fixbv_floordiv self (IntOp n) =
     bind (fixbv_init (IntArg n) 0 None None) (\<lambda>x. fixbv_floordiv self (FixOp x))"
  by pat_completeness auto
termination
  by (relation "measure (\<lambda>(self, other). case other of IntOp _ \<Rightarrow> 1 | FixOp _ \<Rightarrow> 0)") auto

function fixbv_mod :: "fixbv \<Rightarrow> operand \<Rightarrow> fixbv result" where
  "fixbv_mod self (FixOp other) =
     bind (align self (FixOp other)) (\<lambda>(c, d).
       bind (py_mod (getsi c) (getsi d)) (\<lambda>r.
         fixbv_init (IntArg r) (f_shift c) None None))"
| "fixbv_mod self (IntOp n) =
     bind (fixbv_init (IntArg n) 0 None None) (\<lambda>x. fixbv_mod self (FixOp x))"
  by pat_completeness auto
termination
  by (relation "measure (\<lambda>(self, other). case other of IntOp _ \<Rightarrow> 1 | FixOp _ \<Rightarrow> 0)") auto

text \<open>
  \<^verbatim>\<open>__pow__\<close>: an instance as exponent must be a whole number; the exponent is then
  \<^verbatim>\<open>int(other)\<close>, and the new instance is built from \<^verbatim>\<open>self.si**powerval\<close>, which the
  constructor rejects when it is a float.
\<close>

definition fixbv_pow :: "fixbv \<Rightarrow> operand \<Rightarrow> fixbv result" where
  "fixbv_pow self other =
     bind (case other of
             FixOp x \<Rightarrow> if \<not> is_integer x then Inl TypeError else Inr ()
           | IntOp n \<Rightarrow> Inr ()) (\<lambda>_.
     bind (int_of_operand other) (\<lambda>powerval.
     bind (py_pow (getsi self) powerval) (\<lambda>v.
       fixbv_init v (f_shift self * powerval) None None)))"

text \<open>\<^verbatim>\<open>__rpow__\<close>, the reflected power, is not implemented.\<close>

definition fixbv_rpow :: "fixbv \<Rightarrow> operand \<Rightarrow> fixbv result \<times> fixbv" where
  "fixbv_rpow self other = (Inl NotImplementedError, self)"

subsection \<open>Reflected operators\<close>

text \<open>
  When the left operand of a binary operator is not an instance and the right one is,
  Python calls the reflected method of the right operand, with the left operand as
  \<^verbatim>\<open>other\<close>: here an integer. \<^verbatim>\<open>__radd__\<close> and \<^verbatim>\<open>__rmul__\<close> are \<^verbatim>\<open>__add__\<close> and
  \<^verbatim>\<open>__mul__\<close>; \<^verbatim>\<open>__rsub__\<close> and \<^verbatim>\<open>__rmod__\<close> make an instance of the left operand
  (\<^verbatim>\<open>x = fixbv(other)\<close>) and return \<^verbatim>\<open>x - self\<close> and \<^verbatim>\<open>x % self\<close>.
\<close>

definition fixbv_radd :: "fixbv \<Rightarrow> int \<Rightarrow> fixbv result" where
  "fixbv_radd self other = fixbv_add self (IntOp other)"

definition fixbv_rsub :: "fixbv \<Rightarrow> int \<Rightarrow> fixbv result" where
  "fixbv_rsub self other =
     bind (fixbv_init (IntArg other) 0 None None) (\<lambda>x. fixbv_sub x (FixOp self))"

definition fixbv_rmul :: "fixbv \<Rightarrow> int \<Rightarrow> fixbv result" where
  "fixbv_rmul self other = fixbv_mul self (IntOp other)"

definition fixbv_rmod :: "fixbv \<Rightarrow> int \<Rightarrow> fixbv result" where
  "fixbv_rmod self other =
     bind (fixbv_init (IntArg other) 0 None None) (\<lambda>x. fixbv_mod x (FixOp self))"

text \<open>
  \<^verbatim>\<open>__float__\<close> is \<^verbatim>\<open>float(self.si*2**self.shift)\<close>, a double, given here by its
  value. With a shift of 0 or more the integer product is converted. With a negative
  shift the product is already a float, computed as in \<^verbatim>\<open>__int__\<close>: the double of the
  stored integer times two to the shift is a double itself down to a shift of -1074, and
  below that \<^verbatim>\<open>2**self.shift\<close> is 0.0.
\<close>

definition fixbv_float :: "fixbv \<Rightarrow> real result" where
  "fixbv_float self =
     (if 0 \<le> f_shift self then
        bind (float_of_int (f_val self * 2 ^ nat (f_shift self))) (\<lambda>d. Inr (of_int d))
      else
        bind (float_of_int (f_shift self)) (\<lambda>_.
        bind (float_of_int (f_val self)) (\<lambda>d.
          Inr (if f_shift self < - 1074 then 0 else of_int d * 2 powi (f_shift self)))))"

text \<open>
  \<^verbatim>\<open>__rfloordiv__\<close> does not make an instance of the left operand: for an integer
  \<^verbatim>\<open>other\<close> it returns \<^verbatim>\<open>int(float(other) // float(self.si*2**self.shift))\<close>, a plain
  Python integer. The floor division of two doubles is the hardware's and the C library's:
  the parameter \<open>fdiv\<close> gives \<^verbatim>\<open>int(a // b)\<close> for the doubles \<open>a\<close> and \<open>b\<close>, \<open>b\<close> not
  zero (the integer, or the exception of \<^verbatim>\<open>int\<close> on an infinite quotient). Python raises
  \<^verbatim>\<open>ZeroDivisionError\<close> for the double 0.0 as divisor.
\<close>

definition fixbv_rfloordiv :: "(real \<Rightarrow> real \<Rightarrow> int result) \<Rightarrow> fixbv \<Rightarrow> int \<Rightarrow> int result" where
  "fixbv_rfloordiv fdiv self other =
     bind (float_of_int other) (\<lambda>a.
     bind (fixbv_float self) (\<lambda>b.
       if b = 0 then Inl ZeroDivisionError else fdiv (of_int a) b))"

subsection \<open>In-place arithmetic\<close>

text \<open>
  The in-place operators for \<^verbatim>\<open>+ - * // %\<close> compute the result of the plain operator,
  run \<^verbatim>\<open>_handleBounds\<close> on that result and return it: \<^verbatim>\<open>self\<close> is not changed, the
  caller's name is bound to the returned instance.
\<close>

definition fixbv_iadd :: "fixbv \<Rightarrow> operand \<Rightarrow> fixbv result" where
  "fixbv_iadd self other =
     bind (fixbv_add self other) (\<lambda>result. bind (handleBounds result) (\<lambda>_. Inr result))"

definition fixbv_isub :: "fixbv \<Rightarrow> operand \<Rightarrow> fixbv result" where
  "fixbv_isub self other =
     bind (fixbv_sub self other) (\<lambda>result. bind (handleBounds result) (\<lambda>_. Inr result))"

definition fixbv_imul :: "fixbv \<Rightarrow> operand \<Rightarrow> fixbv result" where
  "fixbv_imul self other =
     bind (fixbv_mul self other) (\<lambda>result. bind (handleBounds result) (\<lambda>_. Inr result))"

definition fixbv_ifloordiv :: "fixbv \<Rightarrow> operand \<Rightarrow> fixbv result" where
  "fixbv_ifloordiv self other =
     bind (fixbv_floordiv self other) (\<lambda>result. bind (handleBounds result) (\<lambda>_. Inr result))"

definition fixbv_imod :: "fixbv \<Rightarrow> operand \<Rightarrow> fixbv result" where
  "fixbv_imod self other =
     bind (fixbv_mod self other) (\<lambda>result. bind (handleBounds result) (\<lambda>_. Inr result))"

text \<open>\<^verbatim>\<open>__itruediv__\<close> raises as well, with another exception class.\<close>

definition fixbv_itruediv :: "fixbv \<Rightarrow> operand \<Rightarrow> fixbv result \<times> fixbv" where
  "fixbv_itruediv self other = (Inl TypeError, self)"

section \<open>Shifts\<close>



text \<open>
  \<^verbatim>\<open>__ilshift__\<close> and \<^verbatim>\<open>__irshift__\<close> change \<^verbatim>\<open>self\<close>: the result is the outcome
  (an exception or none) together with the instance as the call leaves it. An exception
  raised by \<^verbatim>\<open>_handleBounds\<close> comes after the stored integer was assigned. For an operand
  that is not an instance the method calls itself on \<^verbatim>\<open>fixbv(other)\<close> and then runs
  \<^verbatim>\<open>_handleBounds\<close> once more.
\<close>

function fixbv_ilshift :: "fixbv \<Rightarrow> operand \<Rightarrow> unit result \<times> fixbv" where
  "fixbv_ilshift self (FixOp other) =
     (if is_integer other then
        (case bind (fixbv_int other) (py_lshift (getsi self)) of
           Inl e \<Rightarrow> (Inl e, self)
         | Inr v \<Rightarrow> (let self' = setsi self v in (handleBounds self', self')))
      else (Inl TypeError, self))"
| "fixbv_ilshift self (IntOp n) =
     (case fixbv_init (IntArg n) 0 None None of
        Inl e \<Rightarrow> (Inl e, self)
      | Inr x \<Rightarrow>
          (case fixbv_ilshift self (FixOp x) of
             (Inl e, self') \<Rightarrow> (Inl e, self')
           | (Inr _, self') \<Rightarrow> (handleBounds self', self')))"
  by pat_completeness auto
termination
  by (relation "measure (\<lambda>(self, other). case other of IntOp _ \<Rightarrow> 1 | FixOp _ \<Rightarrow> 0)") auto

function fixbv_irshift :: "fixbv \<Rightarrow> operand \<Rightarrow> unit result \<times> fixbv" where
  "fixbv_irshift self (FixOp other) =
     (if is_integer other then
        (case bind (fixbv_int other) (py_rshift (getsi self)) of
           Inl e \<Rightarrow> (Inl e, self)
         | Inr v \<Rightarrow> (let self' = setsi self v in (handleBounds self', self')))
      else (Inl TypeError, self))"
| "fixbv_irshift self (IntOp n) =
     (case fixbv_init (IntArg n) 0 None None of
        Inl e \<Rightarrow> (Inl e, self)
      | Inr x \<Rightarrow>
          (case fixbv_irshift self (FixOp x) of
             (Inl e, self') \<Rightarrow> (Inl e, self')
           | (Inr _, self') \<Rightarrow> (handleBounds self', self')))"
  by pat_completeness auto
termination
  by (relation "measure (\<lambda>(self, other). case other of IntOp _ \<Rightarrow> 1 | FixOp _ \<Rightarrow> 0)") auto

section \<open>Comparison\<close>

function fixbv_eq :: "fixbv \<Rightarrow> operand \<Rightarrow> bool result" where
  "fixbv_eq self (FixOp other) =
     bind (align self (FixOp other)) (\<lambda>(c, d). Inr (getsi c = getsi d))"
| "fixbv_eq self (IntOp n) =
     bind (fixbv_init (IntArg n) 0 None None) (\<lambda>other_fixbv. fixbv_eq self (FixOp other_fixbv))"
  by pat_completeness auto
termination
  by (relation "measure (\<lambda>(self, other). case other of IntOp _ \<Rightarrow> 1 | FixOp _ \<Rightarrow> 0)") auto

section \<open>Indexing and slicing\<close>

text \<open>
  \<^verbatim>\<open>__getitem__\<close> with an index reads bit \<^verbatim>\<open>key - self.shift\<close> of the stored integer.
  With a slice it subtracts the shift from \<^verbatim>\<open>key.start\<close> and \<^verbatim>\<open>key.stop\<close> first, which
  raises \<^verbatim>\<open>TypeError\<close> when either is \<^verbatim>\<open>None\<close>, so the defaults further down are never
  reached. The result of a slice is an \<^verbatim>\<open>intbv\<close> of another module: its value and its
  number of bits.
\<close>

definition getitem_bit :: "fixbv \<Rightarrow> int \<Rightarrow> bool result" where
  "getitem_bit self key =
     (let i = key - f_shift self in
      bind (py_rshift (getsi self) i) (\<lambda>t. Inr ((t AND 1) \<noteq> 0)))"

definition getitem_slice :: "fixbv \<Rightarrow> int option \<Rightarrow> int option \<Rightarrow> (int \<times> int) result" where
  "getitem_slice self start stop =
     (case start of
        None \<Rightarrow> Inl TypeError
      | Some st \<Rightarrow>
          (case stop of
             None \<Rightarrow> Inl TypeError
           | Some sp \<Rightarrow>
               (let i = st - f_shift self; j = sp - f_shift self in
                if j < 0 then Inl (ValueError RequiresJNonNegative)
                else if i \<le> j then Inl (ValueError RequiresIAboveJ)
                else
                  bind (py_lshift 1 i) (\<lambda>b.
                  bind (py_rshift (getsi self AND (b - 1)) j) (\<lambda>t.
                    Inr (t, i - j))))))"

text \<open>
  \<^verbatim>\<open>__setitem__\<close> changes \<^verbatim>\<open>self\<close>: as for the in-place shifts the result is the
  outcome together with the instance as the call leaves it. The value is an integer
  (\<^verbatim>\<open>val = int(val)\<close>). The index and the slice limits are used as they are given:
  \<^verbatim>\<open>i = int(key)\<close>, and \<^verbatim>\<open>i, j = key.start, key.stop\<close>, with \<^verbatim>\<open>j\<close> 0 by default.
\<close>

definition setitem_bit :: "fixbv \<Rightarrow> int \<Rightarrow> int \<Rightarrow> unit result \<times> fixbv" where
  "setitem_bit self key v =
     (let i = key in
      if v = 1 then
        (case py_lshift 1 i of
           Inl e \<Rightarrow> (Inl e, self)
         | Inr b \<Rightarrow> (let self' = setsi self (getsi self OR b) in (handleBounds self', self')))
      else if v = 0 then
        (case py_lshift 1 i of
           Inl e \<Rightarrow> (Inl e, self)
         | Inr b \<Rightarrow> (let self' = setsi self (getsi self AND NOT b) in (handleBounds self', self')))
      else (Inl (ValueError RequiresBit), self))"

definition setitem_slice :: "fixbv \<Rightarrow> int option \<Rightarrow> int option \<Rightarrow> int \<Rightarrow> unit result \<times> fixbv" where
  "setitem_slice self start stop v =
     (let j = (case stop of None \<Rightarrow> 0 | Some sp \<Rightarrow> sp) in
      if j < 0 then (Inl (ValueError RequiresJNonNegative), self)
      else
        (case start of
           None \<Rightarrow>
             (let q = getsi self mod 2 ^ nat j;
                  self' = setsi self (v * 2 ^ nat j + q)
              in (handleBounds self', self'))
         | Some i \<Rightarrow>
             if i \<le> j then (Inl (ValueError RequiresIAboveJ), self)
             else
               (let lim = 2 ^ nat (i - j) in
                if v \<ge> lim \<or> v < - lim then (Inl (ValueError AbsTooLarge), self)
                else
                  (let mask = (lim - 1) * 2 ^ nat j;
                       self1 = setsi self (getsi self AND NOT mask);
                       self2 = setsi self1 (getsi self1 OR (v * 2 ^ nat j))
                   in (handleBounds self2, self2)))))"

section \<open>Number of bits and the signed value\<close>

text \<open>
  \<^verbatim>\<open>getnrbits\<close>: 0 without a lower bound, otherwise the larger of the bit widths of the
  lower bound and of the upper bound less one (\<^verbatim>\<open>None - 1\<close> raises \<^verbatim>\<open>TypeError\<close>).
\<close>

definition getnrbits :: "(int \<Rightarrow> real) \<Rightarrow> fixbv \<Rightarrow> int result" where
  "getnrbits flog self =
     (case f_min self of
        None \<Rightarrow> Inr 0
      | Some lo \<Rightarrow>
          (let NrBitsMin = calc_nr_bits flog lo in
           case f_max self of
             None \<Rightarrow> Inl TypeError
           | Some hi \<Rightarrow> (let NrBitsMax = calc_nr_bits flog (hi - 1) in Inr (max NrBitsMin NrBitsMax))))"

text \<open>
  Attribute lookup on an instance. The class derives from \<^verbatim>\<open>object\<close> and defines no
  \<^verbatim>\<open>__getattr__\<close>, so a name is found only if \<^verbatim>\<open>__init__\<close> assigned it, the class body
  defines it, or \<^verbatim>\<open>object\<close> has it. The names that hold an integer or \<^verbatim>\<open>None\<close> are
  looked up with their value; every other name of the class is a method or a computed
  property.
\<close>

datatype attr_value = IntOrNone "int option" | OtherAttr

definition fixbv_data_attrs :: "fixbv \<Rightarrow> (string \<times> int option) list" where
  "fixbv_data_attrs self =
     [(''_val'', Some (f_val self)), (''si'', Some (f_val self)),
      (''_shift'', Some (f_shift self)), (''shift'', Some (f_shift self)),
      (''fractionlength'', Some (- f_shift self)),
      (''_min'', f_min self), (''minsi'', f_min self),
      (''_max'', f_max self), (''maxsi'', f_max self)]"

definition fixbv_other_attrs :: "string list" where
  "fixbv_other_attrs =
     [''_init_asfloat'', ''_print_asfloat'', ''_vcd_asfloat'',
      ''__init__'', ''maxfloat'', ''minfloat'', ''getsi'', ''setsi'', ''getshift'',
      ''getfractionlength'', ''getminsi'', ''setminsi'', ''getmaxsi'', ''setmaxsi'',
      ''getnrbits'', ''nrbits'', ''_cast'', ''fixto'', ''_isfixbv'', ''eps'', ''align'',
      ''_handleBounds'', ''__hash__'', ''__copy__'', ''__deepcopy__'', ''__bool__'',
      ''__nonzero__'', ''__len__'', ''is_integer'', ''__iter__'', ''__getitem__'',
      ''__setitem__'', ''__index__'', ''__add__'', ''__radd__'', ''__sub__'', ''__rsub__'',
      ''__mul__'', ''__rmul__'', ''__truediv__'', ''__rtruediv__'', ''__floordiv__'',
      ''__rfloordiv__'', ''__mod__'', ''__rmod__'', ''__pow__'', ''__rpow__'', ''__iadd__'',
      ''__isub__'', ''__imul__'', ''__ifloordiv__'', ''__idiv__'', ''__itruediv__'',
      ''__imod__'', ''__neg__'', ''__pos__'', ''__abs__'', ''__lshift__'', ''__rlshift__'',
      ''__rshift__'', ''__rrshift__'', ''__ilshift__'', ''__irshift__'', ''__invert__'',
      ''__eq__'', ''__ne__'', ''__lt__'', ''__le__'', ''__gt__'', ''__ge__'', ''__float__'',
      ''__int__'', ''__long__'', ''__oct__'', ''__hex__'', ''__str__'', ''__repr__'',
      ''signed'',
      ''__class__'', ''__delattr__'', ''__dict__'', ''__dir__'', ''__doc__'', ''__format__'',
      ''__getattribute__'', ''__getstate__'', ''__init_subclass__'', ''__module__'',
      ''__new__'', ''__reduce__'', ''__reduce_ex__'', ''__setattr__'', ''__sizeof__'',
      ''__subclasshook__'', ''__weakref__'']"

definition getattr_fixbv :: "fixbv \<Rightarrow> string \<Rightarrow> attr_value result" where
  "getattr_fixbv self name =
     (case map_of (fixbv_data_attrs self) name of
        Some v \<Rightarrow> Inr (IntOrNone v)
      | None \<Rightarrow> if name \<in> set fixbv_other_attrs then Inr OtherAttr else Inl AttributeError)"

text \<open>
  \<^verbatim>\<open>signed\<close>. Its test reads \<^verbatim>\<open>self.min\<close>, then \<^verbatim>\<open>self.nrbits\<close> if the first two
  conjuncts hold. In the unsigned case the bit at \<^verbatim>\<open>nrbits - 1\<close> decides the sign and the
  bits below it are the magnitude.
\<close>

definition signed :: "(int \<Rightarrow> real) \<Rightarrow> fixbv \<Rightarrow> int result" where
  "signed flog self =
     bind (getattr_fixbv self ''min'') (\<lambda>m.
     bind (case m of
             OtherAttr \<Rightarrow> Inl TypeError
           | IntOrNone None \<Rightarrow> Inr False
           | IntOrNone (Some lo) \<Rightarrow>
               if lo \<ge> 0 then bind (getnrbits flog self) (\<lambda>n. Inr (n > 0)) else Inr False)
       (\<lambda>unsigned.
          if unsigned then
            bind (getnrbits flog self) (\<lambda>nrbits.
              let msb = nrbits - 1 in
              bind (py_rshift (getsi self) msb) (\<lambda>t.
                let sign = (t AND 1) > 0 in
                bind (py_lshift 1 msb) (\<lambda>b.
                  let mask = b - 1;
                      retVal = getsi self AND mask
                  in Inr (if sign then retVal - b else retVal))))
          else Inr (getsi self)))"

section \<open>Notions used in the statements\<close>

text \<open>An integer operand made an instance, as \<^verbatim>\<open>fixbv(n)\<close> returns it.\<close>

definition of_int_operand :: "int \<Rightarrow> fixbv" where
  "of_int_operand n = \<lparr>f_val = n, f_shift = 0, f_min = None, f_max = None\<rparr>"

text \<open>An instance without bounds.\<close>

definition bounds_absent :: "fixbv \<Rightarrow> bool" where
  "bounds_absent r \<longleftrightarrow> f_min r = None \<and> f_max r = None"

text \<open>The range invariant: with both bounds set, the stored integer lies in \<open>[min, max)\<close>.\<close>

definition bounds_ok :: "fixbv \<Rightarrow> bool" where
  "bounds_ok s =
     (case f_min s of
        None \<Rightarrow> True
      | Some lo \<Rightarrow> (case f_max s of None \<Rightarrow> True | Some hi \<Rightarrow> lo \<le> f_val s \<and> f_val s < hi))"

text \<open>
  What a checked mutation of \<open>self\<close> leaves: when it returns, the invariant holds; when
  it raises, the exception is the range error, or the instance is as it was.
\<close>

definition checked :: "fixbv \<Rightarrow> unit result \<times> fixbv \<Rightarrow> bool" where
  "checked self out =
     (case fst out of
        Inr _ \<Rightarrow> bounds_ok (snd out)
      | Inl e \<Rightarrow> e = ValueError OutOfRange \<or> snd out = self)"


text \<open>Instances for the examples.\<close>

definition ex_bounded :: fixbv where
  "ex_bounded = \<lparr>f_val = 3, f_shift = - 1, f_min = Some 0, f_max = Some 8\<rparr>"

definition ex_other :: fixbv where
  "ex_other = \<lparr>f_val = 1, f_shift = 1, f_min = Some (- 4), f_max = Some 4\<rparr>"

definition ex_range :: fixbv where
  "ex_range = \<lparr>f_val = 1, f_shift = 0, f_min = Some 0, f_max = Some 4\<rparr>"

definition ex_unit :: fixbv where
  "ex_unit = \<lparr>f_val = 0, f_shift = 1, f_min = None, f_max = None\<rparr>"

definition ex_divisor :: fixbv where
  "ex_divisor = \<lparr>f_val = 2, f_shift = 0, f_min = None, f_max = None\<rparr>"

definition ex_two :: fixbv where
  "ex_two = \<lparr>f_val = 4, f_shift = - 1, f_min = None, f_max = None\<rparr>"

section \<open>Properties\<close>

declare align.simps [simp del]
declare fixbv_add.simps [simp del] fixbv_sub.simps [simp del] fixbv_mul.simps [simp del]
declare fixbv_floordiv.simps [simp del] fixbv_mod.simps [simp del]
declare fixbv_ilshift.simps [simp del] fixbv_irshift.simps [simp del]
declare fixbv_eq.simps [simp del]

subsection \<open>Auxiliary facts\<close>

lemma bind_Inr [simp]: "bind (Inr x) k = k x"
  by (simp add: bind_def)

lemma bind_Inl [simp]: "bind (Inl e) k = Inl e"
  by (simp add: bind_def)

lemma bind_eq_Inr: "bind m k = Inr r \<longleftrightarrow> (\<exists>v. m = Inr v \<and> k v = Inr r)"
  by (cases m) simp_all

lemma handleBounds_unbounded [simp]:
  "handleBounds \<lparr>f_val = n, f_shift = sh, f_min = None, f_max = None\<rparr> = Inr ()"
  by (simp add: handleBounds_def)

lemma fixbv_init_plain [simp]:
  "fixbv_init (IntArg n) sh None None =
     Inr \<lparr>f_val = n, f_shift = sh, f_min = None, f_max = None\<rparr>"
  by (simp add: fixbv_init_def cast_def)

lemma fixbv_init_float [simp]: "fixbv_init FloatArg sh None None = Inl TypeError"
  by (simp add: fixbv_init_def cast_def)


lemma alignvalues_ge:
  "b_shift \<le> a_shift \<Longrightarrow>
     alignvalues (a_val, a_shift) (b_val, b_shift) =
       ((a_val * 2 ^ nat (a_shift - b_shift), b_shift), (b_val, b_shift))"
  by (simp add: alignvalues.simps)

lemma alignvalues_lt:
  "a_shift < b_shift \<Longrightarrow>
     alignvalues (a_val, a_shift) (b_val, b_shift) =
       ((a_val, a_shift), (b_val * 2 ^ nat (b_shift - a_shift), a_shift))"
  by (subst alignvalues.simps) (simp add: alignvalues_ge)

lemma realvalue_rescale:
  "e' \<le> e \<Longrightarrow> realvalue (v * 2 ^ nat (e - e'), e') = realvalue (v, e)"
proof -
  assume le: "e' \<le> e"
  have "(2::real) powi e = 2 powi (e - e') * 2 powi e'"
    by (simp flip: power_int_add)
  moreover have "(2::real) powi (e - e') = 2 ^ nat (e - e')"
    using le by (simp add: power_int_def)
  ultimately show ?thesis
    by (simp add: realvalue_def)
qed

lemma realvalue_same_shift:
  "realvalue (a, e) = realvalue (b, e) \<longleftrightarrow> a = b"
proof -
  have "(2::real) powi e \<noteq> 0"
    by simp
  then show ?thesis
    by (simp add: realvalue_def)
qed

subsection \<open>Alignment\<close>

text \<open>
  C2. \<^verbatim>\<open>alignvalues\<close> returns both pairs at the smaller of the two shifts: the pair with
  the larger shift has its value multiplied by two to the difference, the other pair is
  returned as it is, and with equal shifts both are; the real-world value of each operand
  is the same before and after.
\<close>

theorem alignvalues_exact:
  "alignvalues (va, ea) (vb, eb) =
     (if eb < ea then ((va * 2 ^ nat (ea - eb), eb), (vb, eb))
      else if ea < eb then ((va, ea), (vb * 2 ^ nat (eb - ea), ea))
      else ((va, ea), (vb, eb)))
   \<and> snd (fst (alignvalues (va, ea) (vb, eb))) = min ea eb
   \<and> snd (snd (alignvalues (va, ea) (vb, eb))) = min ea eb
   \<and> realvalue (fst (alignvalues (va, ea) (vb, eb))) = realvalue (va, ea)
   \<and> realvalue (snd (alignvalues (va, ea) (vb, eb))) = realvalue (vb, eb)"
proof (cases "eb \<le> ea")
  case True
  then show ?thesis
    by (auto simp: alignvalues_ge realvalue_rescale)
next
  case False
  then have "ea < eb" by simp
  then show ?thesis
    by (simp add: alignvalues_lt realvalue_rescale)
qed

theorem alignvalues_exact_witness:
  "alignvalues (100, 10) (10, 2) = ((25600, 2), (10, 2))
   \<and> realvalue (25600, 2) = realvalue (100, 10)
   \<and> alignvalues (10, 2) (100, 10) = ((10, 2), (25600, 2))
   \<and> alignvalues (3, 4) (5, 4) = ((3, 4), (5, 4))"
proof -
  note a = alignvalues_exact [of 100 10 10 2]
  from a have 1: "alignvalues (100, 10) (10, 2) = ((25600, 2), (10, 2))"
    by simp
  from a have "realvalue (fst (alignvalues (100, 10) (10, 2))) = realvalue (100, 10)"
    by blast
  then have 2: "realvalue (25600, 2) = realvalue (100, 10)"
    by (simp add: 1)
  have 3: "alignvalues (10, 2) (100, 10) = ((10, 2), (25600, 2))"
    using alignvalues_exact [of 10 2 100 10] by simp
  have 4: "alignvalues (3, 4) (5, 4) = ((3, 4), (5, 4))"
    using alignvalues_exact [of 3 4 5 4] by simp
  from 1 2 3 4 show ?thesis
    by blast
qed

subsection \<open>The operators on instances\<close>

lemma align_fix:
  "align x (FixOp y) =
     Inr (\<lparr>f_val = f_val x * 2 ^ nat (f_shift x - min (f_shift x) (f_shift y)),
           f_shift = min (f_shift x) (f_shift y), f_min = None, f_max = None\<rparr>,
          \<lparr>f_val = f_val y * 2 ^ nat (f_shift y - min (f_shift x) (f_shift y)),
           f_shift = min (f_shift x) (f_shift y), f_min = None, f_max = None\<rparr>)"
proof (cases "f_shift y \<le> f_shift x")
  case True
  then show ?thesis
    by (simp add: align.simps getsi_def alignvalues_ge min_def)
next
  case False
  then show ?thesis
    by (simp add: align.simps getsi_def alignvalues_lt min_def)
qed

lemma add_fix:
  "fixbv_add x (FixOp y) =
     Inr \<lparr>f_val = f_val x * 2 ^ nat (f_shift x - min (f_shift x) (f_shift y))
                  + f_val y * 2 ^ nat (f_shift y - min (f_shift x) (f_shift y)),
          f_shift = min (f_shift x) (f_shift y), f_min = None, f_max = None\<rparr>"
  by (simp add: fixbv_add.simps align_fix getsi_def)

lemma add_int: "fixbv_add x (IntOp n) = fixbv_add x (FixOp (of_int_operand n))"
  by (simp add: fixbv_add.simps of_int_operand_def)

lemma sub_fix:
  "fixbv_sub x (FixOp y) =
     Inr \<lparr>f_val = f_val x * 2 ^ nat (f_shift x - min (f_shift x) (f_shift y))
                  - f_val y * 2 ^ nat (f_shift y - min (f_shift x) (f_shift y)),
          f_shift = min (f_shift x) (f_shift y), f_min = None, f_max = None\<rparr>"
  by (simp add: fixbv_sub.simps align_fix getsi_def)

lemma sub_int: "fixbv_sub x (IntOp n) = fixbv_sub x (FixOp (of_int_operand n))"
  by (simp add: fixbv_sub.simps of_int_operand_def)

lemma mul_fix:
  "fixbv_mul x (FixOp y) =
     Inr \<lparr>f_val = f_val x * f_val y, f_shift = f_shift x + f_shift y,
          f_min = None, f_max = None\<rparr>"
  by (simp add: fixbv_mul.simps getsi_def)

lemma mul_int: "fixbv_mul x (IntOp n) = fixbv_mul x (FixOp (of_int_operand n))"
  by (simp add: fixbv_mul.simps of_int_operand_def)

lemma floordiv_fix:
  "fixbv_floordiv x (FixOp y) =
     (if f_val y = 0 then Inl ZeroDivisionError
      else Inr \<lparr>f_val = (f_val x * 2 ^ nat (f_shift x - min (f_shift x) (f_shift y)))
                         div (f_val y * 2 ^ nat (f_shift y - min (f_shift x) (f_shift y))),
                f_shift = 0, f_min = None, f_max = None\<rparr>)"
  by (simp add: fixbv_floordiv.simps align_fix getsi_def py_floordiv_def)

lemma floordiv_int: "fixbv_floordiv x (IntOp n) = fixbv_floordiv x (FixOp (of_int_operand n))"
  by (simp add: fixbv_floordiv.simps of_int_operand_def)

lemma mod_fix:
  "fixbv_mod x (FixOp y) =
     (if f_val y = 0 then Inl ZeroDivisionError
      else Inr \<lparr>f_val = (f_val x * 2 ^ nat (f_shift x - min (f_shift x) (f_shift y)))
                         mod (f_val y * 2 ^ nat (f_shift y - min (f_shift x) (f_shift y))),
                f_shift = min (f_shift x) (f_shift y), f_min = None, f_max = None\<rparr>)"
  by (simp add: fixbv_mod.simps align_fix getsi_def py_mod_def)

lemma mod_int: "fixbv_mod x (IntOp n) = fixbv_mod x (FixOp (of_int_operand n))"
  by (simp add: fixbv_mod.simps of_int_operand_def)

lemma py_pow_cases: "py_pow b p = Inr v \<Longrightarrow> (\<exists>n. v = IntArg n) \<or> v = FloatArg"
  by (auto simp: py_pow_def bind_eq_Inr split: if_splits)

lemma add_unbounded: "\<exists>r. fixbv_add x y = Inr r \<and> bounds_absent r"
  by (cases y) (simp_all add: add_int add_fix bounds_absent_def)

lemma sub_unbounded: "\<exists>r. fixbv_sub x y = Inr r \<and> bounds_absent r"
  by (cases y) (simp_all add: sub_int sub_fix bounds_absent_def)

lemma mul_unbounded: "\<exists>r. fixbv_mul x y = Inr r \<and> bounds_absent r"
  by (cases y) (simp_all add: mul_int mul_fix bounds_absent_def)

lemma floordiv_unbounded: "fixbv_floordiv x y = Inr r \<Longrightarrow> bounds_absent r"
  by (cases y) (auto simp: floordiv_int floordiv_fix bounds_absent_def split: if_splits)

lemma mod_unbounded: "fixbv_mod x y = Inr r \<Longrightarrow> bounds_absent r"
  by (cases y) (auto simp: mod_int mod_fix bounds_absent_def split: if_splits)

lemma pow_unbounded: "fixbv_pow x y = Inr r \<Longrightarrow> bounds_absent r"
  by (auto simp: fixbv_pow_def bind_eq_Inr bounds_absent_def dest!: py_pow_cases)

lemma floordiv_error: "fixbv_floordiv x y = Inl e \<Longrightarrow> e = ZeroDivisionError"
  by (cases y) (auto simp: floordiv_int floordiv_fix split: if_splits)

lemma mod_error: "fixbv_mod x y = Inl e \<Longrightarrow> e = ZeroDivisionError"
  by (cases y) (auto simp: mod_int mod_fix split: if_splits)

text \<open>The results of the operators on the example instances.\<close>

lemma ex_add:
  "fixbv_add ex_bounded (FixOp ex_other) =
     Inr \<lparr>f_val = 7, f_shift = - 1, f_min = None, f_max = None\<rparr>"
  by (simp add: add_fix ex_bounded_def ex_other_def)

lemma ex_sub:
  "fixbv_sub ex_bounded (FixOp ex_other) =
     Inr \<lparr>f_val = - 1, f_shift = - 1, f_min = None, f_max = None\<rparr>"
  by (simp add: sub_fix ex_bounded_def ex_other_def)

lemma ex_mul:
  "fixbv_mul ex_bounded (FixOp ex_other) =
     Inr \<lparr>f_val = 3, f_shift = 0, f_min = None, f_max = None\<rparr>"
  by (simp add: mul_fix ex_bounded_def ex_other_def)

lemma ex_floordiv:
  "fixbv_floordiv ex_bounded (FixOp ex_other) =
     Inr \<lparr>f_val = 0, f_shift = 0, f_min = None, f_max = None\<rparr>"
  by (simp add: floordiv_fix ex_bounded_def ex_other_def)

lemma ex_mod:
  "fixbv_mod ex_bounded (FixOp ex_other) =
     Inr \<lparr>f_val = 3, f_shift = - 1, f_min = None, f_max = None\<rparr>"
  by (simp add: mod_fix ex_bounded_def ex_other_def)

lemma ex_pow:
  "fixbv_pow ex_bounded (FixOp ex_other) =
     Inr \<lparr>f_val = 9, f_shift = - 2, f_min = None, f_max = None\<rparr>"
  by (simp add: fixbv_pow_def int_of_operand_def py_pow_def getsi_def ex_bounded_def
      ex_other_def is_integer_def fixbv_int_def)

subsection \<open>Equality\<close>

text \<open>
  C9. Equality of two instances aligns them and compares the stored integers: it never
  raises, and it holds exactly when the two real-world values (stored integer times two to
  the shift) are the same, whatever the shifts and the bounds.
\<close>

theorem fixbv_eq_real_value:
  "fixbv_eq x (FixOp y) =
     Inr (realvalue (f_val x, f_shift x) = realvalue (f_val y, f_shift y))"
proof (cases "f_shift y \<le> f_shift x")
  case True
  have "f_val x * 2 ^ nat (f_shift x - f_shift y) = f_val y \<longleftrightarrow>
        realvalue (f_val x * 2 ^ nat (f_shift x - f_shift y), f_shift y)
          = realvalue (f_val y, f_shift y)"
    by (simp only: realvalue_same_shift)
  also have "\<dots> \<longleftrightarrow> realvalue (f_val x, f_shift x) = realvalue (f_val y, f_shift y)"
    using True by (simp only: realvalue_rescale)
  finally show ?thesis
    using True by (simp add: fixbv_eq.simps align_fix getsi_def)
next
  case False
  then have lt: "f_shift x < f_shift y" by simp
  have "f_val x = f_val y * 2 ^ nat (f_shift y - f_shift x) \<longleftrightarrow>
        realvalue (f_val x, f_shift x)
          = realvalue (f_val y * 2 ^ nat (f_shift y - f_shift x), f_shift x)"
    by (simp only: realvalue_same_shift)
  also have "\<dots> \<longleftrightarrow> realvalue (f_val x, f_shift x) = realvalue (f_val y, f_shift y)"
    using lt by (simp only: realvalue_rescale order.strict_implies_order)
  finally show ?thesis
    using lt by (simp add: fixbv_eq.simps align_fix getsi_def)
qed

text \<open>The example of the specification: \<open>(4, -1)\<close> and \<open>(1, 1)\<close> are both 2.\<close>

theorem fixbv_eq_real_value_witness:
  "fixbv_eq ex_two (FixOp ex_other) = Inr True"
  using fixbv_eq_real_value [of ex_two ex_other]
  by (simp add: realvalue_def ex_two_def ex_other_def)

subsection \<open>Arithmetic results carry no bounds\<close>

text \<open>
  The operator methods of an instance as left operand, with an integer or an instance as
  right operand: whatever bounds the operands carry, the instance that the method returns
  has neither a lower nor an upper bound. On these operands addition, subtraction and
  multiplication return one; floor division, modulo and power can raise instead (a zero
  divisor, a negative or fractional exponent), and what they return has no bounds.
\<close>

lemma arithmetic_results_unbounded:
  "(\<exists>r. fixbv_add x y = Inr r \<and> bounds_absent r)
   \<and> (\<exists>r. fixbv_sub x y = Inr r \<and> bounds_absent r)
   \<and> (\<exists>r. fixbv_mul x y = Inr r \<and> bounds_absent r)
   \<and> (\<forall>r. fixbv_floordiv x y = Inr r \<longrightarrow> bounds_absent r)
   \<and> (\<forall>r. fixbv_mod x y = Inr r \<longrightarrow> bounds_absent r)
   \<and> (\<forall>r. fixbv_pow x y = Inr r \<longrightarrow> bounds_absent r)"
  using add_unbounded sub_unbounded mul_unbounded floordiv_unbounded mod_unbounded
    pow_unbounded
  by blast

text \<open>Two operands with bounds: each of the six operators returns an instance without.\<close>

lemma arithmetic_results_unbounded_example:
  "fixbv_add ex_bounded (FixOp ex_other)
     = Inr \<lparr>f_val = 7, f_shift = - 1, f_min = None, f_max = None\<rparr>
   \<and> fixbv_floordiv ex_bounded (FixOp ex_other)
     = Inr \<lparr>f_val = 0, f_shift = 0, f_min = None, f_max = None\<rparr>
   \<and> bounds_absent \<lparr>f_val = 0, f_shift = 0, f_min = None, f_max = None\<rparr>
   \<and> fixbv_mod ex_bounded (FixOp ex_other)
     = Inr \<lparr>f_val = 3, f_shift = - 1, f_min = None, f_max = None\<rparr>
   \<and> bounds_absent \<lparr>f_val = 3, f_shift = - 1, f_min = None, f_max = None\<rparr>
   \<and> fixbv_pow ex_bounded (FixOp ex_other)
     = Inr \<lparr>f_val = 9, f_shift = - 2, f_min = None, f_max = None\<rparr>
   \<and> bounds_absent \<lparr>f_val = 9, f_shift = - 2, f_min = None, f_max = None\<rparr>"
proof -
  note all = arithmetic_results_unbounded [of ex_bounded "FixOp ex_other"]
  from all ex_floordiv
  have 1: "bounds_absent \<lparr>f_val = 0, f_shift = 0, f_min = None, f_max = None\<rparr>"
    by blast
  from all ex_mod
  have 2: "bounds_absent \<lparr>f_val = 3, f_shift = - 1, f_min = None, f_max = None\<rparr>"
    by blast
  from all ex_pow
  have 3: "bounds_absent \<lparr>f_val = 9, f_shift = - 2, f_min = None, f_max = None\<rparr>"
    by blast
  from 1 2 3 ex_add ex_floordiv ex_mod ex_pow show ?thesis
    by blast
qed

subsection \<open>In-place arithmetic\<close>

lemma unbounded_handleBounds: "bounds_absent r \<Longrightarrow> handleBounds r = Inr ()"
  by (simp add: bounds_absent_def handleBounds_def)

lemma unbounded_ok: "bounds_absent r \<Longrightarrow> bounds_ok r"
  by (simp add: bounds_absent_def bounds_ok_def)

lemma iadd_eq: "fixbv_iadd x y = fixbv_add x y"
  using add_unbounded [of x y] by (auto simp: fixbv_iadd_def unbounded_handleBounds)

lemma isub_eq: "fixbv_isub x y = fixbv_sub x y"
  using sub_unbounded [of x y] by (auto simp: fixbv_isub_def unbounded_handleBounds)

lemma imul_eq: "fixbv_imul x y = fixbv_mul x y"
  using mul_unbounded [of x y] by (auto simp: fixbv_imul_def unbounded_handleBounds)

lemma ifloordiv_eq: "fixbv_ifloordiv x y = fixbv_floordiv x y"
proof (cases "fixbv_floordiv x y")
  case (Inl e)
  then show ?thesis
    by (simp add: fixbv_ifloordiv_def)
next
  case (Inr r)
  then show ?thesis
    using floordiv_unbounded [of x y r] by (simp add: fixbv_ifloordiv_def unbounded_handleBounds)
qed

lemma imod_eq: "fixbv_imod x y = fixbv_mod x y"
proof (cases "fixbv_mod x y")
  case (Inl e)
  then show ?thesis
    by (simp add: fixbv_imod_def)
next
  case (Inr r)
  then show ?thesis
    using mod_unbounded [of x y r] by (simp add: fixbv_imod_def unbounded_handleBounds)
qed

lemma iadd_unbounded: "fixbv_iadd x y = Inr r \<Longrightarrow> bounds_absent r"
  using add_unbounded [of x y] by (auto simp: iadd_eq)

lemma isub_unbounded: "fixbv_isub x y = Inr r \<Longrightarrow> bounds_absent r"
  using sub_unbounded [of x y] by (auto simp: isub_eq)

lemma imul_unbounded: "fixbv_imul x y = Inr r \<Longrightarrow> bounds_absent r"
  using mul_unbounded [of x y] by (auto simp: imul_eq)

lemma ifloordiv_unbounded: "fixbv_ifloordiv x y = Inr r \<Longrightarrow> bounds_absent r"
  by (simp add: ifloordiv_eq floordiv_unbounded)

lemma imod_unbounded: "fixbv_imod x y = Inr r \<Longrightarrow> bounds_absent r"
  by (simp add: imod_eq mod_unbounded)

lemma inplace_no_range_error:
  "fixbv_iadd x y \<noteq> Inl (ValueError OutOfRange)
   \<and> fixbv_isub x y \<noteq> Inl (ValueError OutOfRange)
   \<and> fixbv_imul x y \<noteq> Inl (ValueError OutOfRange)
   \<and> fixbv_ifloordiv x y \<noteq> Inl (ValueError OutOfRange)
   \<and> fixbv_imod x y \<noteq> Inl (ValueError OutOfRange)"
  using add_unbounded [of x y] sub_unbounded [of x y] mul_unbounded [of x y]
    floordiv_error [of x y "ValueError OutOfRange"] mod_error [of x y "ValueError OutOfRange"]
  by (auto simp: iadd_eq isub_eq imul_eq ifloordiv_eq imod_eq)

text \<open>
  C10. Where the plain operator returns an instance, the in-place operator for
  \<^verbatim>\<open>+ - * // %\<close> returns that same instance; it has no bounds, whatever bounds the
  left operand has, so the validation run on it finds nothing to check, and the in-place
  operator never raises the range error.
\<close>

theorem inplace_arithmetic_unbounded:
  "(\<forall>r. fixbv_add x y = Inr r \<longrightarrow>
        fixbv_iadd x y = Inr r \<and> bounds_absent r \<and> handleBounds r = Inr ())
   \<and> (\<forall>r. fixbv_sub x y = Inr r \<longrightarrow>
        fixbv_isub x y = Inr r \<and> bounds_absent r \<and> handleBounds r = Inr ())
   \<and> (\<forall>r. fixbv_mul x y = Inr r \<longrightarrow>
        fixbv_imul x y = Inr r \<and> bounds_absent r \<and> handleBounds r = Inr ())
   \<and> (\<forall>r. fixbv_floordiv x y = Inr r \<longrightarrow>
        fixbv_ifloordiv x y = Inr r \<and> bounds_absent r \<and> handleBounds r = Inr ())
   \<and> (\<forall>r. fixbv_mod x y = Inr r \<longrightarrow>
        fixbv_imod x y = Inr r \<and> bounds_absent r \<and> handleBounds r = Inr ())
   \<and> fixbv_iadd x y \<noteq> Inl (ValueError OutOfRange)
   \<and> fixbv_isub x y \<noteq> Inl (ValueError OutOfRange)
   \<and> fixbv_imul x y \<noteq> Inl (ValueError OutOfRange)
   \<and> fixbv_ifloordiv x y \<noteq> Inl (ValueError OutOfRange)
   \<and> fixbv_imod x y \<noteq> Inl (ValueError OutOfRange)"
proof -
  have "fixbv_add x y = Inr r \<longrightarrow>
          fixbv_iadd x y = Inr r \<and> bounds_absent r \<and> handleBounds r = Inr ()" for r
    using iadd_unbounded [of x y r] by (auto simp: iadd_eq unbounded_handleBounds)
  moreover have "fixbv_sub x y = Inr r \<longrightarrow>
          fixbv_isub x y = Inr r \<and> bounds_absent r \<and> handleBounds r = Inr ()" for r
    using isub_unbounded [of x y r] by (auto simp: isub_eq unbounded_handleBounds)
  moreover have "fixbv_mul x y = Inr r \<longrightarrow>
          fixbv_imul x y = Inr r \<and> bounds_absent r \<and> handleBounds r = Inr ()" for r
    using imul_unbounded [of x y r] by (auto simp: imul_eq unbounded_handleBounds)
  moreover have "fixbv_floordiv x y = Inr r \<longrightarrow>
          fixbv_ifloordiv x y = Inr r \<and> bounds_absent r \<and> handleBounds r = Inr ()" for r
    using ifloordiv_unbounded [of x y r] by (auto simp: ifloordiv_eq unbounded_handleBounds)
  moreover have "fixbv_mod x y = Inr r \<longrightarrow>
          fixbv_imod x y = Inr r \<and> bounds_absent r \<and> handleBounds r = Inr ()" for r
    using imod_unbounded [of x y r] by (auto simp: imod_eq unbounded_handleBounds)
  ultimately show ?thesis
    using inplace_no_range_error [of x y] by blast
qed

text \<open>
  The left operand has the bounds \<open>[0, 8)\<close>; the sum 7 and the difference -1 come back
  without bounds, the latter below the left operand's lower bound.
\<close>

theorem inplace_arithmetic_unbounded_witness:
  "f_min ex_bounded = Some 0 \<and> f_max ex_bounded = Some 8
   \<and> fixbv_iadd ex_bounded (FixOp ex_other)
     = Inr \<lparr>f_val = 7, f_shift = - 1, f_min = None, f_max = None\<rparr>
   \<and> fixbv_isub ex_bounded (FixOp ex_other)
     = Inr \<lparr>f_val = - 1, f_shift = - 1, f_min = None, f_max = None\<rparr>
   \<and> fixbv_imul ex_bounded (FixOp ex_other)
     = Inr \<lparr>f_val = 3, f_shift = 0, f_min = None, f_max = None\<rparr>
   \<and> fixbv_ifloordiv ex_bounded (FixOp ex_other)
     = Inr \<lparr>f_val = 0, f_shift = 0, f_min = None, f_max = None\<rparr>
   \<and> fixbv_imod ex_bounded (FixOp ex_other)
     = Inr \<lparr>f_val = 3, f_shift = - 1, f_min = None, f_max = None\<rparr>"
proof -
  note all = inplace_arithmetic_unbounded [of ex_bounded "FixOp ex_other"]
  from all ex_add have 1: "fixbv_iadd ex_bounded (FixOp ex_other)
      = Inr \<lparr>f_val = 7, f_shift = - 1, f_min = None, f_max = None\<rparr>"
    by blast
  from all ex_sub have 2: "fixbv_isub ex_bounded (FixOp ex_other)
      = Inr \<lparr>f_val = - 1, f_shift = - 1, f_min = None, f_max = None\<rparr>"
    by blast
  from all ex_mul have 3: "fixbv_imul ex_bounded (FixOp ex_other)
      = Inr \<lparr>f_val = 3, f_shift = 0, f_min = None, f_max = None\<rparr>"
    by blast
  from all ex_floordiv have 4: "fixbv_ifloordiv ex_bounded (FixOp ex_other)
      = Inr \<lparr>f_val = 0, f_shift = 0, f_min = None, f_max = None\<rparr>"
    by blast
  from all ex_mod have 5: "fixbv_imod ex_bounded (FixOp ex_other)
      = Inr \<lparr>f_val = 3, f_shift = - 1, f_min = None, f_max = None\<rparr>"
    by blast
  have "f_min ex_bounded = Some 0 \<and> f_max ex_bounded = Some 8"
    by (simp add: ex_bounded_def)
  with 1 2 3 4 5 show ?thesis
    by blast
qed

subsection \<open>True division\<close>

text \<open>
  C7, as amended. True division is rejected whatever the operands, without a result and
  with the left operand as it was: the plain operator raises \<^verbatim>\<open>NotImplementedError\<close>, as
  the reflected power does, and the in-place operator raises \<^verbatim>\<open>TypeError\<close>.
\<close>

theorem true_division_rejected:
  "fixbv_truediv x y = (Inl NotImplementedError, x)
   \<and> fixbv_itruediv x y = (Inl TypeError, x)"
  by (simp add: fixbv_truediv_def fixbv_itruediv_def)

text \<open>
  The claim as stated has the plain operator raise a type error: it raises the exception
  of the operations that are not implemented, which is not the in-place operator's.
\<close>

theorem truediv_not_type_error:
  "fst (fixbv_truediv ex_bounded (IntOp 2)) = Inl NotImplementedError
   \<and> fst (fixbv_truediv ex_bounded (IntOp 2)) \<noteq> Inl TypeError
   \<and> fst (fixbv_truediv ex_bounded (IntOp 2)) = fst (fixbv_rpow ex_bounded (IntOp 2))
   \<and> fst (fixbv_truediv ex_bounded (IntOp 2)) \<noteq> fst (fixbv_itruediv ex_bounded (IntOp 2))"
  by (simp add: fixbv_truediv_def fixbv_itruediv_def fixbv_rpow_def)

subsection \<open>Conversion to a float and back\<close>

lemma bit_length_eq:
  "2 ^ k \<le> n \<Longrightarrow> n < 2 ^ Suc k \<Longrightarrow> bit_length n = Suc k"
proof (induction k arbitrary: n)
  case 0
  then have "n = 1" by simp
  then show ?case
    by (simp add: bit_length.simps [of "Suc 0"] bit_length.simps [of 0])
next
  case (Suc k)
  from Suc.prems have "2 ^ k \<le> n div 2" and "n div 2 < 2 ^ Suc k"
    by simp_all
  then have "bit_length (n div 2) = Suc k"
    by (rule Suc.IH)
  moreover from Suc.prems have "n \<noteq> 0"
    by auto
  ultimately show ?case
    by (simp add: bit_length.simps [of n])
qed

lemma bit_length_le: "n < 2 ^ k \<Longrightarrow> bit_length n \<le> k"
proof (induction k arbitrary: n)
  case 0
  then show ?case
    by (simp add: bit_length.simps [of 0])
next
  case (Suc k)
  show ?case
  proof (cases "n = 0")
    case True
    then show ?thesis
      by (simp add: bit_length.simps [of 0])
  next
    case False
    from Suc.prems have "n div 2 < 2 ^ k"
      by simp
    then have "bit_length (n div 2) \<le> k"
      by (rule Suc.IH)
    with False show ?thesis
      by (simp add: bit_length.simps [of n])
  qed
qed

lemma round53_small: "\<bar>n\<bar> < 2 ^ 53 \<Longrightarrow> round53 n = n"
proof -
  assume "\<bar>n\<bar> < 2 ^ 53"
  then have "nat \<bar>n\<bar> < 2 ^ 53"
    by simp
  then have "bit_length (nat \<bar>n\<bar>) \<le> 53"
    by (rule bit_length_le)
  then show ?thesis
    by (simp add: round53_def Let_def)
qed

lemma float_of_int_small: "\<bar>n\<bar> < 2 ^ 53 \<Longrightarrow> float_of_int n = Inr n"
  by (simp add: float_of_int_def round53_small)



subsection \<open>Shifts\<close>

lemma of_int_operand_integer [simp]: "is_integer (of_int_operand n)"
  by (simp add: is_integer_def of_int_operand_def)

lemma of_int_operand_int [simp]: "fixbv_int (of_int_operand n) = Inr n"
  by (simp add: fixbv_int_def of_int_operand_def)





lemma ilshift_fix:
  "is_integer other \<Longrightarrow> fixbv_int other = Inr n \<Longrightarrow>
   fixbv_ilshift x (FixOp other) =
     (if n < 0 then (Inl (ValueError NegativeShiftCount), x)
      else (handleBounds (x\<lparr>f_val := f_val x * 2 ^ nat n\<rparr>),
            x\<lparr>f_val := f_val x * 2 ^ nat n\<rparr>))"
  by (simp add: fixbv_ilshift.simps getsi_def setsi_def py_lshift_def Let_def)

lemma irshift_fix:
  "is_integer other \<Longrightarrow> fixbv_int other = Inr n \<Longrightarrow>
   fixbv_irshift x (FixOp other) =
     (if n < 0 then (Inl (ValueError NegativeShiftCount), x)
      else (handleBounds (x\<lparr>f_val := f_val x div 2 ^ nat n\<rparr>),
            x\<lparr>f_val := f_val x div 2 ^ nat n\<rparr>))"
  by (simp add: fixbv_irshift.simps getsi_def setsi_def py_rshift_def Let_def)

lemma ilshift_int: "fixbv_ilshift x (IntOp n) = fixbv_ilshift x (FixOp (of_int_operand n))"
  by (cases "handleBounds (x\<lparr>f_val := f_val x * 2 ^ nat n\<rparr>)")
     (simp_all add: fixbv_ilshift.simps(2) ilshift_fix flip: of_int_operand_def)

lemma irshift_int: "fixbv_irshift x (IntOp n) = fixbv_irshift x (FixOp (of_int_operand n))"
  by (cases "handleBounds (x\<lparr>f_val := f_val x div 2 ^ nat n\<rparr>)")
     (simp_all add: fixbv_irshift.simps(2) irshift_fix flip: of_int_operand_def)





subsection \<open>Bounds validation\<close>

lemma handleBounds_cases:
  "handleBounds s = Inr () \<and> bounds_ok s \<or> handleBounds s = Inl (ValueError OutOfRange)"
  by (auto simp: handleBounds_def bounds_ok_def split: option.splits)

lemma handleBounds_ok: "handleBounds s = Inr u \<Longrightarrow> bounds_ok s"
  using handleBounds_cases [of s] by auto

lemma init_ok: "fixbv_init v sh mn mx = Inr s \<Longrightarrow> bounds_ok s"
  by (cases v)
     (auto simp: fixbv_init_def bind_eq_Inr cast_def Let_def dest: handleBounds_ok
           split: if_splits)

lemma init_bounded:
  "lo < hi \<Longrightarrow>
   fixbv_init (IntArg n) sh (Some lo) (Some hi) =
     (if lo \<le> n \<and> n < hi
      then Inr \<lparr>f_val = n, f_shift = sh, f_min = Some lo, f_max = Some hi\<rparr>
      else Inl (ValueError OutOfRange))"
  by (auto simp: fixbv_init_def cast_def handleBounds_def)

lemma checked_handleBounds: "checked self (handleBounds s, s)"
  using handleBounds_cases [of s] by (auto simp: checked_def)

lemma checked_error: "checked self (Inl e, self)"
  by (simp add: checked_def)

lemma setitem_bit_checked: "checked self (setitem_bit self key v)"
  by (auto simp: setitem_bit_def Let_def checked_handleBounds checked_error split: sum.splits)

lemma setitem_slice_checked: "checked self (setitem_slice self start stop v)"
  by (auto simp: setitem_slice_def Let_def checked_handleBounds checked_error
           split: option.splits)

lemma ilshift_fix_checked: "checked self (fixbv_ilshift self (FixOp other))"
  by (auto simp: fixbv_ilshift.simps Let_def checked_handleBounds checked_error
           split: sum.splits)

lemma irshift_fix_checked: "checked self (fixbv_irshift self (FixOp other))"
  by (auto simp: fixbv_irshift.simps Let_def checked_handleBounds checked_error
           split: sum.splits)

lemma ilshift_checked: "checked self (fixbv_ilshift self y)"
  by (cases y) (simp_all add: ilshift_int ilshift_fix_checked)

lemma irshift_checked: "checked self (fixbv_irshift self y)"
  by (cases y) (simp_all add: irshift_int irshift_fix_checked)

lemma inplace_ok:
  "fixbv_iadd self y = Inr r \<or> fixbv_isub self y = Inr r \<or> fixbv_imul self y = Inr r
     \<or> fixbv_ifloordiv self y = Inr r \<or> fixbv_imod self y = Inr r \<Longrightarrow> bounds_ok r"
  using iadd_unbounded isub_unbounded imul_unbounded ifloordiv_unbounded imod_unbounded
    unbounded_ok
  by blast

text \<open>
  C4, as amended. Every instance that the constructor returns satisfies the range
  invariant (with both bounds set, \<open>min \<le> stored integer < max\<close>), and a stored integer
  outside well-formed bounds makes the constructor raise the range error. After a bit or
  slice assignment and after an in-place shift, either the invariant holds, or the range
  error was raised by that very call, or the call raised another exception and left the
  instance as it was. What an in-place operator for \<^verbatim>\<open>+ - * // %\<close> returns satisfies
  the invariant. The writes through the properties \<^verbatim>\<open>si\<close>, \<^verbatim>\<open>minsi\<close> and \<^verbatim>\<open>maxsi\<close>
  are not among the checked mutations.
\<close>

theorem mutations_checked:
  "(\<forall>s. fixbv_init v sh mn mx = Inr s \<longrightarrow> bounds_ok s)
   \<and> (lo < hi \<longrightarrow>
        fixbv_init (IntArg n) sh (Some lo) (Some hi) =
          (if lo \<le> n \<and> n < hi
           then Inr \<lparr>f_val = n, f_shift = sh, f_min = Some lo, f_max = Some hi\<rparr>
           else Inl (ValueError OutOfRange)))
   \<and> checked self (setitem_bit self key b)
   \<and> checked self (setitem_slice self start stop b)
   \<and> checked self (fixbv_ilshift self y)
   \<and> checked self (fixbv_irshift self y)
   \<and> (\<forall>r. fixbv_iadd self y = Inr r \<or> fixbv_isub self y = Inr r
            \<or> fixbv_imul self y = Inr r \<or> fixbv_ifloordiv self y = Inr r
            \<or> fixbv_imod self y = Inr r \<longrightarrow> bounds_ok r)"
  using init_ok [of v sh mn mx] init_bounded [of lo hi n sh]
    setitem_bit_checked [of self key b] setitem_slice_checked [of self start stop b]
    ilshift_checked [of self y] irshift_checked [of self y] inplace_ok [of self y]
  by blast

text \<open>
  With the bounds \<open>[0, 4)\<close>: constructing with 5 raises the range error (the example of
  the specification), constructing with 1 succeeds; setting bit 1 gives 3, within the
  bounds; setting bit 3 gives 9 and raises the range error.
\<close>

theorem mutations_checked_witness:
  "fixbv_init (IntArg 5) 0 (Some 0) (Some 4) = Inl (ValueError OutOfRange)
   \<and> fixbv_init (IntArg 1) 0 (Some 0) (Some 4) = Inr ex_range
   \<and> bounds_ok ex_range
   \<and> setitem_bit ex_range 1 1 = (Inr (), ex_range\<lparr>f_val := 3\<rparr>)
   \<and> bounds_ok (ex_range\<lparr>f_val := 3\<rparr>)
   \<and> setitem_bit ex_range 3 1 = (Inl (ValueError OutOfRange), ex_range\<lparr>f_val := 9\<rparr>)
   \<and> checked ex_range (setitem_bit ex_range 3 1)"
proof -
  have lt: "(0::int) < 4"
    by simp
  note m5 = mutations_checked [where v = "IntArg 1" and sh = 0 and mn = "Some 0"
      and mx = "Some 4" and lo = 0 and hi = 4 and n = 5 and self = ex_range
      and key = 1 and b = 1]
  note m1 = mutations_checked [where v = "IntArg 1" and sh = 0 and mn = "Some 0"
      and mx = "Some 4" and lo = 0 and hi = 4 and n = 1 and self = ex_range
      and key = 3 and b = 1]
  from m5 lt have 1: "fixbv_init (IntArg 5) 0 (Some 0) (Some 4) = Inl (ValueError OutOfRange)"
    by simp
  from m1 lt have 2: "fixbv_init (IntArg 1) 0 (Some 0) (Some 4) = Inr ex_range"
    by (simp add: ex_range_def)
  from m1 2 have 3: "bounds_ok ex_range"
    by blast
  have 4: "setitem_bit ex_range 1 1 = (Inr (), ex_range\<lparr>f_val := 3\<rparr>)"
    by (simp add: setitem_bit_def py_lshift_def setsi_def getsi_def handleBounds_def
        ex_range_def)
  from m5 have "checked ex_range (setitem_bit ex_range 1 1)"
    by blast
  with 4 have 5: "bounds_ok (ex_range\<lparr>f_val := 3\<rparr>)"
    by (simp add: checked_def)
  have 6: "setitem_bit ex_range 3 1 = (Inl (ValueError OutOfRange), ex_range\<lparr>f_val := 9\<rparr>)"
    by (simp add: setitem_bit_def py_lshift_def setsi_def getsi_def handleBounds_def
        ex_range_def)
  from m1 have 7: "checked ex_range (setitem_bit ex_range 3 1)"
    by blast
  from 1 2 3 4 5 6 7 show ?thesis
    by blast
qed

text \<open>
  The claim as stated includes the writes through the setters: on an instance with the
  bounds \<open>[0, 4)\<close>, \<^verbatim>\<open>x.si = 10\<close> stores 10 and nothing is raised, and so it is for a
  lower bound moved above, or an upper bound moved down to, the stored integer.
\<close>

theorem setsi_unchecked:
  "bounds_ok ex_range
   \<and> setsi ex_range 10 = \<lparr>f_val = 10, f_shift = 0, f_min = Some 0, f_max = Some 4\<rparr>
   \<and> \<not> bounds_ok (setsi ex_range 10)
   \<and> \<not> bounds_ok (setminsi ex_range (Some 2))
   \<and> \<not> bounds_ok (setmaxsi ex_range (Some 1))"
  by (simp add: setsi_def setminsi_def setmaxsi_def ex_range_def bounds_ok_def)

subsection \<open>The signed value\<close>

text \<open>
  C1. The docstring of \<^verbatim>\<open>signed\<close> classifies an instance by its bounds and has the
  stored integer reinterpreted in two's complement when the lower bound is 0 or more. The
  method reads the lower bound as \<^verbatim>\<open>self.min\<close>, a name the class does not have (the
  bound is \<^verbatim>\<open>self.minsi\<close>, or \<^verbatim>\<open>self._min\<close>): on every instance the call raises
  \<^verbatim>\<open>AttributeError\<close> and returns nothing.
\<close>

theorem signed_raises_attribute_error: "signed flog x = Inl AttributeError"
  by (simp add: signed_def getattr_fixbv_def fixbv_data_attrs_def fixbv_other_attrs_def)

subsection \<open>The bit width\<close>

lemma log2_pow: "log 2 (2 ^ n :: real) = real n"
  by (simp add: log_nat_power)

lemma ceiling_log2_above: "\<lceil>log 2 (2 ^ n + 1 :: real)\<rceil> = int n + 1"
proof (rule ceiling_unique)
  have pos: "(0::real) < 2 ^ n + 1"
    by (simp add: add_pos_pos)
  have "log 2 (2 ^ n :: real) < log 2 (2 ^ n + 1)"
    using pos by (subst log_less_cancel_iff) simp_all
  then show "of_int (int n + 1) - 1 < log 2 (2 ^ n + 1 :: real)"
    by (simp add: log2_pow)
  have "(2 ^ n + 1 :: real) \<le> 2 ^ Suc n"
    by simp
  then have "log 2 (2 ^ n + 1 :: real) \<le> log 2 (2 ^ Suc n)"
    using pos by (subst log_le_cancel_iff) simp_all
  then show "log 2 (2 ^ n + 1 :: real) \<le> of_int (int n + 1)"
    by (simp only: log2_pow of_int_add of_int_of_nat_eq of_int_1 of_nat_Suc)
qed

lemma spec_below: "0 < n \<Longrightarrow> bit_width_spec (2 ^ n - 1) = int n + 1"
proof -
  assume "0 < n"
  then have "(1::int) < 2 ^ n"
    by simp
  then have "\<not> (2 ^ n - 1 = (0::int))" and "\<not> (2 ^ n - 1 < (0::int))"
    by simp_all
  then show ?thesis
    by (simp add: bit_width_spec_def log2_pow)
qed

lemma spec_at: "bit_width_spec (2 ^ n) = int n + 2"
proof -
  have "\<not> (2 ^ n = (0::int))" and "\<not> (2 ^ n < (0::int))"
    by simp_all
  then show ?thesis
    by (simp add: bit_width_spec_def ceiling_log2_above)
qed

lemma round53_tie: "round53 (2 ^ 53 + 1) = 2 ^ 53"
proof -
  have "bit_length 9007199254740993 = 54"
    using bit_length_eq [of 53 9007199254740993] by simp
  then show ?thesis
    by (simp add: round53_def Let_def)
qed

lemma round53_pow: "round53 (2 ^ 53) = 2 ^ 53"
proof -
  have "bit_length 9007199254740992 = 54"
    using bit_length_eq [of 53 9007199254740992] by simp
  then show ?thesis
    by (simp add: round53_def Let_def)
qed

text \<open>
  C3. The estimator takes the logarithm in floating point. The integers \<open>2 ^ 53\<close> and
  \<open>2 ^ 53 + 1\<close> are the same double, so whatever the C library's logarithm returns, the
  estimator gives the arguments \<open>2 ^ 53 - 1\<close> and \<open>2 ^ 53\<close> the same width, where the
  exact formula gives 54 and 55: on one of the two, next to a power of two, the estimator
  is not exact.
\<close>

theorem calc_nr_bits_collision:
  "calc_nr_bits flog (2 ^ 53) = calc_nr_bits flog (2 ^ 53 - 1)
   \<and> bit_width_spec (2 ^ 53 - 1) = 54 \<and> bit_width_spec (2 ^ 53) = 55"
proof -
  have "round53 (2 ^ 53 + 1) = round53 (2 ^ 53)"
    by (simp only: round53_tie round53_pow)
  then have "calc_nr_bits flog (2 ^ 53) = calc_nr_bits flog (2 ^ 53 - 1)"
    by (simp add: calc_nr_bits_def math_log2_def)
  with spec_below [of 53] spec_at [of 53] show ?thesis
    by simp
qed

subsection \<open>Indexing\<close>

text \<open>
  C8. Reading subtracts the shift from the index, writing does not. On \<open>0 * 2 ^ 1\<close>,
  \<^verbatim>\<open>x[1] = 1\<close> sets bit 1 of the stored integer, which becomes 2, where index 1 less
  shift 1 is bit 0; reading \<^verbatim>\<open>x[1]\<close> afterwards looks at bit 0 and finds it clear, and
  the bit just written is read back at index 2. The slice assignment
  \<^verbatim>\<open>x[2:1] = 1\<close> likewise writes bit 1, and the slice \<^verbatim>\<open>x[2:1]\<close> reads bit 0.
\<close>

theorem setitem_ignores_shift:
  "setitem_bit ex_unit 1 1 = (Inr (), ex_unit\<lparr>f_val := 2\<rparr>)
   \<and> getitem_bit (ex_unit\<lparr>f_val := 2\<rparr>) 1 = Inr False
   \<and> getitem_bit (ex_unit\<lparr>f_val := 2\<rparr>) 2 = Inr True
   \<and> setitem_slice ex_unit (Some 2) (Some 1) 1 = (Inr (), ex_unit\<lparr>f_val := 2\<rparr>)
   \<and> getitem_slice (ex_unit\<lparr>f_val := 2\<rparr>) (Some 2) (Some 1) = Inr (0, 1)"
  by (simp add: setitem_bit_def getitem_bit_def setitem_slice_def getitem_slice_def ex_unit_def
      py_lshift_def py_rshift_def setsi_def getsi_def handleBounds_def Let_def)

subsection \<open>Reflected arithmetic\<close>

lemma radd_unbounded: "\<exists>r. fixbv_radd x n = Inr r \<and> bounds_absent r"
  by (simp add: fixbv_radd_def add_unbounded)

lemma rmul_unbounded: "\<exists>r. fixbv_rmul x n = Inr r \<and> bounds_absent r"
  by (simp add: fixbv_rmul_def mul_unbounded)

lemma rsub_unbounded: "\<exists>r. fixbv_rsub x n = Inr r \<and> bounds_absent r"
  by (simp add: fixbv_rsub_def sub_fix bounds_absent_def)

lemma rmod_unbounded: "fixbv_rmod x n = Inr r \<Longrightarrow> bounds_absent r"
  by (auto simp: fixbv_rmod_def mod_fix bounds_absent_def split: if_splits)

text \<open>
  C5. The module's header promises that after any operation a \<^verbatim>\<open>fixbv\<close> without bounds
  is returned, and so it is for a left operand that is an instance and for the reflected
  addition, subtraction, multiplication and modulo. The reflected floor division is the
  exception. For \<^verbatim>\<open>7 // fixbv(2, 0)\<close> both operands are converted to the doubles 7.0
  and 2.0 and the method returns the plain integer that \<^verbatim>\<open>int(7.0 // 2.0)\<close> is, not an
  instance: 3, the exact floored quotient, which double arithmetic gives on these
  operands. On the same operands the reflected modulo returns the instance
  \<open>1 * 2 ^ 0\<close> without bounds, and the floor division of \<^verbatim>\<open>fixbv(7)\<close> by the right
  operand returns the instance \<open>3 * 2 ^ 0\<close> that the claim describes.
\<close>

theorem rfloordiv_returns_plain_int:
  "fixbv_rfloordiv fdiv ex_divisor 7 = fdiv 7 2
   \<and> fixbv_rfloordiv (\<lambda>a b. Inr \<lfloor>a / b\<rfloor>) ex_divisor 7 = Inr 3
   \<and> fixbv_rmod ex_divisor 7 = Inr \<lparr>f_val = 1, f_shift = 0, f_min = None, f_max = None\<rparr>
   \<and> fixbv_rsub ex_divisor 7 = Inr \<lparr>f_val = 5, f_shift = 0, f_min = None, f_max = None\<rparr>
   \<and> fixbv_floordiv (of_int_operand 7) (FixOp ex_divisor)
       = Inr \<lparr>f_val = 3, f_shift = 0, f_min = None, f_max = None\<rparr>"
proof -
  have "float_of_int 7 = Inr 7" and "float_of_int (2 * 2 ^ nat 0) = Inr 2"
    by (simp_all add: float_of_int_small)
  then have eval: "fixbv_rfloordiv g ex_divisor 7 = g 7 2" for g
    by (simp add: fixbv_rfloordiv_def fixbv_float_def ex_divisor_def)
  have "\<lfloor>7 / 2 :: real\<rfloor> = 3"
    by simp
  then have "fixbv_rfloordiv (\<lambda>a b. Inr \<lfloor>a / b\<rfloor>) ex_divisor 7 = Inr 3"
    by (simp only: eval)
  moreover note eval [of fdiv]
  moreover have "fixbv_rmod ex_divisor 7
      = Inr \<lparr>f_val = 1, f_shift = 0, f_min = None, f_max = None\<rparr>"
    by (simp add: fixbv_rmod_def mod_fix ex_divisor_def)
  moreover have "fixbv_rsub ex_divisor 7
      = Inr \<lparr>f_val = 5, f_shift = 0, f_min = None, f_max = None\<rparr>"
    by (simp add: fixbv_rsub_def sub_fix ex_divisor_def)
  moreover have "fixbv_floordiv (of_int_operand 7) (FixOp ex_divisor)
      = Inr \<lparr>f_val = 3, f_shift = 0, f_min = None, f_max = None\<rparr>"
    by (simp add: floordiv_fix of_int_operand_def ex_divisor_def)
  ultimately show ?thesis
    by blast
qed

end
